theory Spec2Isabelle
  imports Main "HOL-Library.Sublist" "HOL-Library.AList"
begin

section \<open>Values\<close>

text \<open>
  A payload is whatever \<^verbatim>\<open>json.loads\<close> builds: \<^verbatim>\<open>None\<close>, a bool, an int, a float, a str, a
  list or a dict. A dict is kept as the list of its items in insertion order (its keys are
  distinct). A float is only ever tested for being zero here, so it is kept as mantissa and
  binary exponent, or as one of the three special values.
\<close>

datatype pyfloat = Finite int int | Infinity bool | NaN

datatype json =
    JNull
  | JBool bool
  | JInt int
  | JFloat pyfloat
  | JStr string
  | JArr "json list"
  | JObj "(string \<times> json) list"

type_synonym JsonObj = "(string \<times> json) list"

type_synonym bytes = "char list"

text \<open>Python's truth value of an object, as \<^verbatim>\<open>if pl:\<close>, \<^verbatim>\<open>not state\<close> and \<^verbatim>\<open>or\<close> test it.\<close>

fun float_truthy :: "pyfloat \<Rightarrow> bool" where
  "float_truthy (Finite m e) = (m \<noteq> 0)"
| "float_truthy (Infinity neg) = True"
| "float_truthy NaN = True"

fun truthy :: "json \<Rightarrow> bool" where
  "truthy JNull = False"
| "truthy (JBool b) = b"
| "truthy (JInt i) = (i \<noteq> 0)"
| "truthy (JFloat f) = float_truthy f"
| "truthy (JStr s) = (s \<noteq> [])"
| "truthy (JArr xs) = (xs \<noteq> [])"
| "truthy (JObj d) = (d \<noteq> [])"

text \<open>\<^verbatim>\<open>a or b\<close> is \<^verbatim>\<open>a\<close> when \<^verbatim>\<open>a\<close> is true, else \<^verbatim>\<open>b\<close>.\<close>

definition py_or :: "json \<Rightarrow> json \<Rightarrow> json" where
  "py_or a b = (if truthy a then a else b)"

text \<open>\<^verbatim>\<open>d.get(k)\<close>: the value under \<^verbatim>\<open>k\<close>, or \<^verbatim>\<open>None\<close>.\<close>

definition dict_get :: "JsonObj \<Rightarrow> string \<Rightarrow> json" where
  "dict_get d k = (case map_of d k of None \<Rightarrow> JNull | Some v \<Rightarrow> v)"

text \<open>\<^verbatim>\<open>d.setdefault(k, v)\<close>: a new last item when \<^verbatim>\<open>k\<close> is not a key, no change otherwise.\<close>

definition setdefault :: "string \<Rightarrow> json \<Rightarrow> JsonObj \<Rightarrow> JsonObj" where
  "setdefault k v d = (case map_of d k of None \<Rightarrow> d @ [(k, v)] | Some _ \<Rightarrow> d)"

section \<open>The interpreter and its environment\<close>

text \<open>
  The functions of the Python runtime that the bus calls, and the one environment variable it
  reads, are parameters of the model:
  \<^item> \<open>Z2M_BASE\<close>: the namespace, \<^verbatim>\<open>os.getenv("Z2M_BASE", "zigbee2mqtt")\<close>;
  \<^item> \<open>bytes_decode\<close>: \<^verbatim>\<open>data.decode()\<close>, \<open>None\<close> when it raises \<^verbatim>\<open>UnicodeDecodeError\<close>;
  \<^item> \<open>bytes_decode_ignore\<close>: \<^verbatim>\<open>data.decode("utf-8", "ignore")\<close>, which never raises;
  \<^item> \<open>json_loads\<close>: \<^verbatim>\<open>json.loads(s)\<close>, \<open>None\<close> when it raises;
  \<^item> \<open>builtin_str\<close>: \<^verbatim>\<open>str(v)\<close> for a value that is not already a str.
\<close>

record runtime =
  Z2M_BASE :: string
  bytes_decode :: "bytes \<Rightarrow> string option"
  bytes_decode_ignore :: "bytes \<Rightarrow> string"
  json_loads :: "string \<Rightarrow> json option"
  builtin_str :: "json \<Rightarrow> string"

definition py_str :: "runtime \<Rightarrow> json \<Rightarrow> string" where
  "py_str rt v = (case v of JStr s \<Rightarrow> s | _ \<Rightarrow> builtin_str rt v)"

section \<open>Payload parsing\<close>

text \<open>
  \<^verbatim>\<open>_try_json\<close>: the \<^verbatim>\<open>try\<close> block decodes, returns \<^verbatim>\<open>{}\<close> for the empty text and the parsed
  value otherwise; any exception of either step lands in the \<^verbatim>\<open>except\<close> branch, which wraps
  the leniently decoded text under \<^verbatim>\<open>"_raw"\<close>.
\<close>

definition raw_fallback :: "runtime \<Rightarrow> bytes \<Rightarrow> json" where
  "raw_fallback rt data = JObj [(''_raw'', JStr (bytes_decode_ignore rt data))]"

definition try_json :: "runtime \<Rightarrow> bytes \<Rightarrow> json" where
  "try_json rt data =
     (case bytes_decode rt data of
        None \<Rightarrow> raw_fallback rt data
      | Some s \<Rightarrow>
          if s \<noteq> [] then
            (case json_loads rt s of
               None \<Rightarrow> raw_fallback rt data
             | Some v \<Rightarrow> v)
          else JObj [])"

section \<open>The bus\<close>

datatype MQTTMessage = MQTTMessage (topic: string) (payload: bytes)

text \<open>
  A handler is a callable of the caller's. It works on the caller's own objects (the heap
  \<open>'w\<close>), and it either returns or raises; what it raises is an instance of
  \<^verbatim>\<open>Exception\<close>, or of \<^verbatim>\<open>BaseException\<close> only (\<^verbatim>\<open>KeyboardInterrupt\<close>, \<^verbatim>\<open>SystemExit\<close>).
  Either way the heap is left as the handler had it at that moment.
\<close>

datatype exc_class = Exception | BaseException

datatype 'w outcome = Returned 'w | Raised exc_class 'w

type_synonym 'w MsgHandler = "string \<Rightarrow> json \<Rightarrow> 'w \<Rightarrow> 'w outcome"

text \<open>
  What the bus does that is visible outside its tables, oldest first: calls on the MQTT
  client (\<^verbatim>\<open>client.subscribe\<close>, \<^verbatim>\<open>client.publish\<close> with its qos and retain flag, the
  payload standing for its \<^verbatim>\<open>json.dumps\<close> text), and the writes to the two handler tables.
  The client is a recorder: its calls return.
\<close>

datatype effect =
    Register_topic string
  | Register_prefix string
  | Client_subscribe string
  | Client_publish string json nat bool

text \<open>
  The four tables of \<^verbatim>\<open>MqttBus\<close>, the heap the handlers close over, and the effects so far.
  \<^verbatim>\<open>_prefix_handlers\<close> is iterated, so it keeps its insertion order; the other three are
  only looked up.
\<close>

record 'w system =
  prefix_handlers :: "(string \<times> 'w MsgHandler) list"
  topic_handlers :: "string \<rightharpoonup> 'w MsgHandler"
  wait_by_key :: "string \<rightharpoonup> (string \<times> json)"
  one_shot :: "string \<rightharpoonup> json"
  heap :: 'w
  trace :: "effect list"

subsection \<open>Dispatch of an inbound message\<close>

text \<open>
  \<^verbatim>\<open>try: h(topic, payload)  except Exception: pass\<close>. \<open>Inr\<close> is normal completion; \<open>Inl\<close> is
  an exception that the clause does not catch and that leaves \<^verbatim>\<open>_on_message\<close>.
\<close>

definition guarded_call ::
  "'w MsgHandler \<Rightarrow> string \<Rightarrow> json \<Rightarrow> 'w system \<Rightarrow> 'w system + 'w system" where
  "guarded_call h t p s =
     (case h t p (heap s) of
        Returned w \<Rightarrow> Inr (s\<lparr>heap := w\<rparr>)
      | Raised Exception w \<Rightarrow> Inr (s\<lparr>heap := w\<rparr>)
      | Raised BaseException w \<Rightarrow> Inl (s\<lparr>heap := w\<rparr>))"

definition exact_dispatch :: "string \<Rightarrow> json \<Rightarrow> 'w system \<Rightarrow> 'w system + 'w system" where
  "exact_dispatch t p s =
     (case topic_handlers s t of
        None \<Rightarrow> Inr s
      | Some h \<Rightarrow> guarded_call h t p s)"

fun prefix_fanout ::
  "(string \<times> 'w MsgHandler) list \<Rightarrow> string \<Rightarrow> json \<Rightarrow> 'w system \<Rightarrow> 'w system + 'w system" where
  "prefix_fanout [] t p s = Inr s"
| "prefix_fanout ((pre, cb) # rest) t p s =
     (if prefix pre t then
        (case guarded_call cb t p s of
           Inl s' \<Rightarrow> Inl s'
         | Inr s' \<Rightarrow> prefix_fanout rest t p s')
      else prefix_fanout rest t p s)"

definition correlation_key :: "runtime \<Rightarrow> JsonObj \<Rightarrow> string" where
  "correlation_key rt d =
     py_str rt (py_or (py_or (dict_get d ''transaction'') (dict_get d ''id'')) (JStr []))"

definition rpc_correlation :: "runtime \<Rightarrow> string \<Rightarrow> json \<Rightarrow> 'w system \<Rightarrow> 'w system" where
  "rpc_correlation rt t p s =
     (case p of
        JObj d \<Rightarrow>
          (let key = correlation_key rt d in
           if key \<noteq> [] then s\<lparr>wait_by_key := (wait_by_key s)(key \<mapsto> (t, p))\<rparr> else s)
      | _ \<Rightarrow> s)"

definition one_shot_fill :: "string \<Rightarrow> json \<Rightarrow> 'w system \<Rightarrow> 'w system" where
  "one_shot_fill t p s =
     (case one_shot s t of
        None \<Rightarrow> s
      | Some _ \<Rightarrow> s\<lparr>one_shot := (one_shot s)(t \<mapsto> p)\<rparr>)"

text \<open>
  \<^verbatim>\<open>_on_message\<close>, all under the bus lock: the exact handler, the prefix fan-out and the
  correlation entry (\<open>before_fill\<close>), then the slot.
\<close>

definition before_fill :: "runtime \<Rightarrow> MQTTMessage \<Rightarrow> 'w system \<Rightarrow> 'w system + 'w system" where
  "before_fill rt msg s =
     (let t = topic msg; p = try_json rt (payload msg) in
      case exact_dispatch t p s of
        Inl s1 \<Rightarrow> Inl s1
      | Inr s1 \<Rightarrow>
          (case prefix_fanout (prefix_handlers s1) t p s1 of
             Inl s2 \<Rightarrow> Inl s2
           | Inr s2 \<Rightarrow> Inr (rpc_correlation rt t p s2)))"

definition on_message :: "runtime \<Rightarrow> MQTTMessage \<Rightarrow> 'w system \<Rightarrow> 'w system + 'w system" where
  "on_message rt msg s =
     (case before_fill rt msg s of
        Inl s1 \<Rightarrow> Inl s1
      | Inr s1 \<Rightarrow> Inr (one_shot_fill (topic msg) (try_json rt (payload msg)) s1))"

text \<open>
  The delivery thread hands the bus one message after the other. \<open>dispatch\<close> is the system
  as one call of \<^verbatim>\<open>_on_message\<close> leaves it, whether the call completed or an exception left
  it; \<open>dispatch_all\<close> is a run of such calls.
\<close>

definition dispatch :: "runtime \<Rightarrow> 'w system \<Rightarrow> MQTTMessage \<Rightarrow> 'w system" where
  "dispatch rt s msg = (case on_message rt msg s of Inl s' \<Rightarrow> s' | Inr s' \<Rightarrow> s')"

definition dispatch_all :: "runtime \<Rightarrow> MQTTMessage list \<Rightarrow> 'w system \<Rightarrow> 'w system" where
  "dispatch_all rt msgs s = foldl (dispatch rt) s msgs"

text \<open>
  The lock orders a dispatch against everything that other threads do under the lock. One
  statement of the bus touches a table without it: the pop that ends \<^verbatim>\<open>wait_for\<close> on the
  timeout path. It can fall inside a dispatch, and the one place where that shows is between
  the test and the assignment of the slot step, when the slot tested is there and the
  assignment puts it back after the pop. \<open>dispatch_racing\<close> is the system as a dispatch leaves
  it with the pop of \<open>popped\<close> at that place.
\<close>

definition racing_fill :: "string \<Rightarrow> string \<Rightarrow> json \<Rightarrow> 'w system \<Rightarrow> 'w system" where
  "racing_fill popped t p s =
     (case one_shot s t of
        None \<Rightarrow> s\<lparr>one_shot := (one_shot s)(popped := None)\<rparr>
      | Some _ \<Rightarrow> s\<lparr>one_shot := ((one_shot s)(popped := None))(t \<mapsto> p)\<rparr>)"

definition dispatch_racing :: "runtime \<Rightarrow> string \<Rightarrow> 'w system \<Rightarrow> MQTTMessage \<Rightarrow> 'w system" where
  "dispatch_racing rt popped s msg =
     (case before_fill rt msg s of
        Inl s1 \<Rightarrow> s1\<lparr>one_shot := (one_shot s1)(popped := None)\<rparr>
      | Inr s1 \<Rightarrow> racing_fill popped (topic msg) (try_json rt (payload msg)) s1)"

subsection \<open>Public API\<close>

definition publish_json :: "string \<Rightarrow> JsonObj option \<Rightarrow> nat \<Rightarrow> bool \<Rightarrow> 'w system \<Rightarrow> 'w system" where
  "publish_json t obj qos retain s =
     s\<lparr>trace := trace s @
        [Client_publish t (JObj (case obj of None \<Rightarrow> [] | Some d \<Rightarrow> d)) qos retain]\<rparr>"

definition rstrip_slash :: "string \<Rightarrow> string" where
  "rstrip_slash s = rev (dropWhile (\<lambda>c. c = CHR ''/'') (rev s))"

definition subscribe_prefix :: "string \<Rightarrow> 'w MsgHandler \<Rightarrow> 'w system \<Rightarrow> 'w system" where
  "subscribe_prefix pre handler s =
     (let topic_filter =
        (if CHR ''#'' \<in> set pre \<or> CHR ''+'' \<in> set pre then pre
         else rstrip_slash pre @ ''/#'')
      in s\<lparr>prefix_handlers := AList.update pre handler (prefix_handlers s),
            trace := trace s @ [Register_prefix pre, Client_subscribe topic_filter]\<rparr>)"

definition subscribe_topic :: "string \<Rightarrow> 'w MsgHandler \<Rightarrow> 'w system \<Rightarrow> 'w system" where
  "subscribe_topic t handler s =
     s\<lparr>topic_handlers := (topic_handlers s)(t \<mapsto> handler),
       trace := trace s @ [Register_topic t, Client_subscribe t]\<rparr>"

text \<open>The exceptions the bus and the controller raise themselves.\<close>

datatype error = ValueError | TimeoutError | DeviceTimeoutError

text \<open>
  Time is not modelled; the schedule of a blocking call is. A polling call (\<^verbatim>\<open>rpc\<close>,
  \<^verbatim>\<open>wait_for\<close>) tests the clock, polls under the lock and sleeps. Its schedule is \<open>rounds\<close>,
  one entry per iteration that the clock allows, holding the messages that the delivery
  thread dispatches before that iteration's poll (since the previous poll, or since the call
  began), and \<open>late\<close>, the messages dispatched after the last poll and before the call ends
  on the timeout path. The lock makes every poll and every dispatch atomic.
\<close>

text \<open>
  \<^verbatim>\<open>rpc\<close>. The correlation value \<^verbatim>\<open>uuid.uuid4().hex[:8]\<close> is the parameter \<open>corr\<close>. Each poll
  pops the entry under \<open>corr\<close>; the 2-tuple it holds is always true, so \<^verbatim>\<open>if hit:\<close> only tests
  that there was one.
\<close>

fun rpc_loop ::
  "runtime \<Rightarrow> string \<Rightarrow> MQTTMessage list list \<Rightarrow> 'w system \<Rightarrow> json option \<times> 'w system" where
  "rpc_loop rt corr [] s = (None, s)"
| "rpc_loop rt corr (r # rounds) s =
     (let s1 = dispatch_all rt r s;
          hit = wait_by_key s1 corr;
          s2 = s1\<lparr>wait_by_key := (wait_by_key s1)(corr := None)\<rparr>
      in case hit of
           None \<Rightarrow> rpc_loop rt corr rounds s2
         | Some (t, pl) \<Rightarrow>
             if prefix (Z2M_BASE rt @ ''/bridge/response/'') t then (Some pl, s2)
             else rpc_loop rt corr rounds s2)"

definition rpc ::
  "runtime \<Rightarrow> string \<Rightarrow> JsonObj option \<Rightarrow> string \<Rightarrow> MQTTMessage list list \<Rightarrow> MQTTMessage list \<Rightarrow>
   'w system \<Rightarrow> (error + json) \<times> 'w system" where
  "rpc rt request_topic pl corr rounds late s =
     (let body = setdefault ''id'' (JStr corr)
                   (setdefault ''transaction'' (JStr corr)
                      (case pl of None \<Rightarrow> [] | Some d \<Rightarrow> d));
          s0 = s\<lparr>trace := trace s @ [Client_publish request_topic (JObj body) 0 False]\<rparr>
      in case rpc_loop rt corr rounds s0 of
           (Some res, s1) \<Rightarrow> (Inr res, s1)
         | (None, s1) \<Rightarrow> (Inl TimeoutError, dispatch_all rt late s1))"

text \<open>
  \<^verbatim>\<open>wait_for\<close>. The loop returns the slot's payload from the first poll that finds it true,
  popping the slot under the lock; when the rounds are used up the slot is popped, without
  the lock, and \<^verbatim>\<open>{}\<close> returned. \<open>racing\<close> is the message whose dispatch that last pop falls
  into, if there is one.
\<close>

fun wait_for_loop ::
  "runtime \<Rightarrow> string \<Rightarrow> MQTTMessage list list \<Rightarrow> 'w system \<Rightarrow> json option \<times> 'w system" where
  "wait_for_loop rt t [] s = (None, s)"
| "wait_for_loop rt t (r # rounds) s =
     (let s1 = dispatch_all rt r s;
          pl = (case one_shot s1 t of None \<Rightarrow> JObj [] | Some v \<Rightarrow> v)
      in if truthy pl then (Some pl, s1\<lparr>one_shot := (one_shot s1)(t := None)\<rparr>)
         else wait_for_loop rt t rounds s1)"

definition wait_for ::
  "runtime \<Rightarrow> string \<Rightarrow> MQTTMessage list list \<Rightarrow> MQTTMessage list \<Rightarrow> MQTTMessage option \<Rightarrow>
   'w system \<Rightarrow> json \<times> 'w system" where
  "wait_for rt t rounds late racing s =
     (let s0 = s\<lparr>one_shot := (one_shot s)(t \<mapsto> JObj []),
                  trace := trace s @ [Client_subscribe t]\<rparr>
      in case wait_for_loop rt t rounds s0 of
           (Some pl, s1) \<Rightarrow> (pl, s1)
         | (None, s1) \<Rightarrow>
             (let s2 = dispatch_all rt late s1
              in (JObj [],
                  case racing of
                    None \<Rightarrow> s2\<lparr>one_shot := (one_shot s2)(t := None)\<rparr>
                  | Some m \<Rightarrow> dispatch_racing rt t s2 m)))"

section \<open>The device controller\<close>

text \<open>
  Every call of \<^verbatim>\<open>set_device_state\<close> builds objects of its own: \<^verbatim>\<open>confirmed_state\<close>, the
  event \<^verbatim>\<open>received_event\<close> (kept as its flag) and the closure \<^verbatim>\<open>state_handler\<close> over the two.
  The heap holds one such cell per call made so far, numbered in the order of the calls;
  \<open>allocated\<close> counts them, so the cell of the next call is a new one. The handler of a call
  writes to the cell of that call and to no other. The heap may hold more than the cells.
\<close>

record pending =
  confirmed_state :: json
  received_event :: bool

record closures =
  cells :: "nat \<Rightarrow> pending"
  allocated :: nat

definition state_handler :: "nat \<Rightarrow> 'a closures_scheme MsgHandler" where
  "state_handler c t p w =
     Returned (w\<lparr>cells := (cells w)(c := \<lparr>confirmed_state = p, received_event = True\<rparr>)\<rparr>)"

text \<open>The command payload: one item per argument that is not \<^verbatim>\<open>None\<close>, in the source's order.\<close>

definition control_field :: "string \<Rightarrow> json option \<Rightarrow> JsonObj" where
  "control_field k v = (case v of None \<Rightarrow> [] | Some x \<Rightarrow> [(k, x)])"

definition device_command ::
  "string option \<Rightarrow> int option \<Rightarrow> int option \<Rightarrow> pyfloat option \<Rightarrow> JsonObj" where
  "device_command state brightness color_temp transition =
     control_field ''state'' (map_option JStr state) @
     control_field ''brightness'' (map_option JInt brightness) @
     control_field ''color_temp'' (map_option JInt color_temp) @
     control_field ''transition'' (map_option JFloat transition)"

definition group_command :: "string option \<Rightarrow> int option \<Rightarrow> int option \<Rightarrow> JsonObj" where
  "group_command state brightness color_temp =
     control_field ''state'' (map_option JStr state) @
     control_field ''brightness'' (map_option JInt brightness) @
     control_field ''color_temp'' (map_option JInt color_temp)"

text \<open>
  \<^verbatim>\<open>set_device_state\<close>. \<open>inbound\<close> is the schedule of \<^verbatim>\<open>received_event.wait(timeout)\<close>: the
  messages that the delivery thread dispatches from the publish until the caller has woken
  up and read \<^verbatim>\<open>confirmed_state\<close>, or until the timeout.
\<close>

definition set_device_state ::
  "runtime \<Rightarrow> string \<Rightarrow> string option \<Rightarrow> int option \<Rightarrow> int option \<Rightarrow> pyfloat option \<Rightarrow>
   MQTTMessage list \<Rightarrow> 'a closures_scheme system \<Rightarrow> (error + json) \<times> 'a closures_scheme system" where
  "set_device_state rt friendly_name state brightness color_temp transition inbound s =
     (let command = device_command state brightness color_temp transition in
      if command = [] then (Inl ValueError, s)
      else
        (let state_topic = Z2M_BASE rt @ ''/'' @ friendly_name;
             c = allocated (heap s);
             s0 = s\<lparr>heap := (heap s)
                    \<lparr>cells := (cells (heap s))
                       (c := \<lparr>confirmed_state = JObj [], received_event = False\<rparr>),
                     allocated := Suc c\<rparr>\<rparr>;
             s1 = subscribe_topic state_topic (state_handler c) s0;
             set_topic = Z2M_BASE rt @ ''/'' @ friendly_name @ ''/set'';
             s2 = publish_json set_topic (Some command) 0 False s1;
             s3 = dispatch_all rt inbound s2
         in if received_event (cells (heap s3) c)
            then (Inr (confirmed_state (cells (heap s3) c)), s3)
            else (Inl DeviceTimeoutError, s3)))"

definition get_device_state ::
  "runtime \<Rightarrow> string \<Rightarrow> MQTTMessage list list \<Rightarrow> MQTTMessage list \<Rightarrow> MQTTMessage option \<Rightarrow>
   'w system \<Rightarrow> (error + json) \<times> 'w system" where
  "get_device_state rt friendly_name rounds late racing s =
     (let state_topic = Z2M_BASE rt @ ''/'' @ friendly_name
      in case wait_for rt state_topic rounds late racing s of
           (st, s1) \<Rightarrow> if \<not> truthy st then (Inl DeviceTimeoutError, s1) else (Inr st, s1))"

text \<open>\<^verbatim>\<open>set_group_state\<close>: no schedule, the call does not block. Its \<^verbatim>\<open>timeout\<close> is unused.\<close>

definition set_group_state ::
  "runtime \<Rightarrow> string \<Rightarrow> string option \<Rightarrow> int option \<Rightarrow> int option \<Rightarrow> 'w system \<Rightarrow>
   (error + json) \<times> 'w system" where
  "set_group_state rt group_name state brightness color_temp s =
     (let command = group_command state brightness color_temp in
      if command = [] then (Inl ValueError, s)
      else
        (let set_topic = Z2M_BASE rt @ ''/'' @ group_name @ ''/set'';
             s1 = publish_json set_topic (Some command) 0 False s
         in (Inr (JObj [(''success'', JBool True), (''command'', JObj command)]), s1)))"

section \<open>Notions used to state the properties\<close>

text \<open>
  The correlation value an inbound message carries: the key under which step 3 of the
  dispatch files it, when its payload is a dict.
\<close>

definition message_key :: "runtime \<Rightarrow> MQTTMessage \<Rightarrow> string option" where
  "message_key rt m = (case try_json rt (payload m) of JObj d \<Rightarrow> Some (correlation_key rt d) | _ \<Rightarrow> None)"

text \<open>
  The handlers that match a topic, in the order \<^verbatim>\<open>_on_message\<close> calls them; the heap a call
  leaves, whichever way it ends; the heap after all of them have run in turn; a handler
  that, on a given message, raises nothing but instances of \<^verbatim>\<open>Exception\<close>; and a system all
  of whose handlers are such, on every message.
\<close>

definition matching_handlers :: "'w system \<Rightarrow> string \<Rightarrow> 'w MsgHandler list" where
  "matching_handlers s t =
     (case topic_handlers s t of None \<Rightarrow> [] | Some h \<Rightarrow> [h]) @
     map snd (filter (\<lambda>(pre, cb). prefix pre t) (prefix_handlers s))"

definition heap_after :: "'w outcome \<Rightarrow> 'w" where
  "heap_after r = (case r of Returned w \<Rightarrow> w | Raised c w \<Rightarrow> w)"

definition run_all :: "string \<Rightarrow> json \<Rightarrow> 'w MsgHandler list \<Rightarrow> 'w \<Rightarrow> 'w" where
  "run_all t p hs w = foldl (\<lambda>w h. heap_after (h t p w)) w hs"

definition raises_only_Exception :: "'w MsgHandler \<Rightarrow> string \<Rightarrow> json \<Rightarrow> bool" where
  "raises_only_Exception h t p = (\<forall>w w'. h t p w \<noteq> Raised BaseException w')"

definition handlers_raise_only_Exception :: "'w system \<Rightarrow> bool" where
  "handlers_raise_only_Exception s =
     (\<forall>t p. \<forall>h \<in> set (matching_handlers s t). raises_only_Exception h t p)"

text \<open>
  The slot of a topic as the dispatches of one round leave it when it held \<open>cur\<close> before: the
  payload of the last message on the topic, or \<open>cur\<close>. \<open>first_true_poll\<close> is the answer of the
  first poll that finds the slot true, following the rounds; \<open>None\<close> when no poll does.
\<close>

definition latest_payload :: "runtime \<Rightarrow> string \<Rightarrow> MQTTMessage list \<Rightarrow> json \<Rightarrow> json" where
  "latest_payload rt t msgs cur =
     foldl (\<lambda>cur m. if topic m = t then try_json rt (payload m) else cur) cur msgs"

fun first_true_poll :: "runtime \<Rightarrow> string \<Rightarrow> MQTTMessage list list \<Rightarrow> json \<Rightarrow> json option" where
  "first_true_poll rt t [] cur = None"
| "first_true_poll rt t (r # rounds) cur =
     (let cur' = latest_payload rt t r cur
      in if truthy cur' then Some cur' else first_true_poll rt t rounds cur')"

text \<open>
  The same for the correlation table: the entry under \<open>k\<close> as one round leaves it, and the
  answer of the first poll that finds an entry from a response topic. Every poll empties the
  entry, so each round starts from \<open>None\<close>.
\<close>

definition latest_entry ::
  "runtime \<Rightarrow> string \<Rightarrow> MQTTMessage list \<Rightarrow> (string \<times> json) option \<Rightarrow> (string \<times> json) option" where
  "latest_entry rt k msgs cur =
     foldl (\<lambda>cur m. if message_key rt m = Some k \<and> k \<noteq> []
                     then Some (topic m, try_json rt (payload m)) else cur) cur msgs"

fun first_response_poll ::
  "runtime \<Rightarrow> string \<Rightarrow> MQTTMessage list list \<Rightarrow> (string \<times> json) option \<Rightarrow> json option" where
  "first_response_poll rt corr [] cur = None"
| "first_response_poll rt corr (r # rounds) cur =
     (case latest_entry rt corr r cur of
        None \<Rightarrow> first_response_poll rt corr rounds None
      | Some (t, pl) \<Rightarrow>
          if prefix (Z2M_BASE rt @ ''/bridge/response/'') t then Some pl
          else first_response_poll rt corr rounds None)"

text \<open>
  In a run of effects, every publish to \<open>set_topic\<close> comes after a registration of the exact
  handler for \<open>state_topic\<close>.
\<close>

definition registered_before_publish :: "string \<Rightarrow> string \<Rightarrow> effect list \<Rightarrow> bool" where
  "registered_before_publish state_topic set_topic es =
     (\<forall>i < length es. (\<exists>body q r. es ! i = Client_publish set_topic body q r) \<longrightarrow>
        (\<exists>j < i. es ! j = Register_topic state_topic))"

subsection \<open>A sample installation\<close>

text \<open>
  The examples run on ASCII payloads and a handful of JSON documents. \<open>sample_runtime\<close>
  answers as CPython does on those: ASCII bytes decode to themselves, a byte above 127
  standing alone is undecodable and dropped by the lenient decoder, and the documents listed
  parse to the values given; text that is none of them is taken to be no JSON at all, which
  the examples rely on only for the empty text and for \<^verbatim>\<open>offline\<close>. The correlation
  values of the examples are strings, so \<^verbatim>\<open>str\<close> is never asked for anything else.
\<close>

definition sample_loads :: "string \<Rightarrow> json option" where
  \<open>sample_loads s =
     (if s = ''{}'' then Some (JObj [])
      else if s = ''{"state":"ON"}'' then Some (JObj [(''state'', JStr ''ON'')])
      else if s = ''{"state":"OFF"}'' then Some (JObj [(''state'', JStr ''OFF'')])
      else if s = ''{"status":"ok","transaction":"3f9a01bc"}''
        then Some (JObj [(''status'', JStr ''ok''), (''transaction'', JStr ''3f9a01bc'')])
      else if s = ''{"transaction": "3f9a01bc", "id": "3f9a01bc"}''
        then Some (JObj [(''transaction'', JStr ''3f9a01bc''), (''id'', JStr ''3f9a01bc'')])
      else if s = ''{"status":"ok","transaction":"7e11d2c4"}''
        then Some (JObj [(''status'', JStr ''ok''), (''transaction'', JStr ''7e11d2c4'')])
      else None)\<close>

definition is_ascii :: "char \<Rightarrow> bool" where
  "is_ascii c = ((of_char c :: nat) < 128)"

definition sample_runtime :: runtime where
  "sample_runtime =
     \<lparr>Z2M_BASE = ''zigbee2mqtt'',
      bytes_decode = (\<lambda>data. if list_all is_ascii data then Some data else None),
      bytes_decode_ignore = filter is_ascii,
      json_loads = sample_loads,
      builtin_str = (\<lambda>v. case v of JBool True \<Rightarrow> ''True'' | JBool False \<Rightarrow> ''False'' | _ \<Rightarrow> ''None'')\<rparr>"

text \<open>
  Five systems: \<open>idle\<close> has no handler, no entry and no slot; \<open>waiting\<close> has the
  confirmation handler of a first call and a slot on the bridge's state topic;
  \<open>health_check_sent\<close> is \<open>idle\<close> after \<^verbatim>\<open>rpc\<close> has published a health check with the
  correlation value \<^verbatim>\<open>3f9a01bc\<close>; \<open>noisy\<close> has handlers that write their name to a log, the
  heap, and of which two raise an \<^verbatim>\<open>Exception\<close>; \<open>fatal\<close> is \<open>noisy\<close> with an exact handler
  that writes its name and then ends the interpreter with \<^verbatim>\<open>sys.exit()\<close>, which raises
  \<^verbatim>\<open>SystemExit\<close>, a \<^verbatim>\<open>BaseException\<close> that is no \<^verbatim>\<open>Exception\<close>.
\<close>

definition idle :: "closures system" where
  "idle = \<lparr>prefix_handlers = [], topic_handlers = Map.empty, wait_by_key = Map.empty,
           one_shot = Map.empty,
           heap = \<lparr>cells = (\<lambda>c. \<lparr>confirmed_state = JObj [], received_event = False\<rparr>),
                   allocated = 0\<rparr>,
           trace = []\<rparr>"

definition waiting :: "closures system" where
  "waiting = idle\<lparr>topic_handlers := [''zigbee2mqtt/bridge/state'' \<mapsto> state_handler 0],
                  one_shot := [''zigbee2mqtt/bridge/state'' \<mapsto> JObj []],
                  heap := (heap idle)\<lparr>allocated := 1\<rparr>\<rparr>"






text \<open>
  Messages: a lamp reporting its state, an empty message and an empty object on the lamp's
  topic, a reply with a correlation value on the lamp's topic, and, for the bridge, the
  broker's echo of the health check request (the bus is subscribed to the whole namespace),
  the reply to it, and a reply to somebody else's request.
\<close>

definition lamp_on :: MQTTMessage where
  \<open>lamp_on = MQTTMessage ''zigbee2mqtt/lamp'' ''{"state":"ON"}''\<close>

definition lamp_off :: MQTTMessage where
  \<open>lamp_off = MQTTMessage ''zigbee2mqtt/lamp'' ''{"state":"OFF"}''\<close>

definition lamp_empty :: MQTTMessage where
  "lamp_empty = MQTTMessage ''zigbee2mqtt/lamp'' []"

definition lamp_braces :: MQTTMessage where
  "lamp_braces = MQTTMessage ''zigbee2mqtt/lamp'' ''{}''"


definition request_echo :: MQTTMessage where
  \<open>request_echo = MQTTMessage ''zigbee2mqtt/bridge/request/health_check''
     ''{"transaction": "3f9a01bc", "id": "3f9a01bc"}''\<close>

definition health_reply :: MQTTMessage where
  \<open>health_reply = MQTTMessage ''zigbee2mqtt/bridge/response/health_check''
     ''{"status":"ok","transaction":"3f9a01bc"}''\<close>

definition stray_reply :: MQTTMessage where
  \<open>stray_reply = MQTTMessage ''zigbee2mqtt/bridge/response/health_check''
     ''{"status":"ok","transaction":"7e11d2c4"}''\<close>

section \<open>What a dispatch changes\<close>

text \<open>
  A handler call, guarded or not, touches the heap only; so does the fan-out. One dispatch
  therefore leaves either the system with a new heap (an exception left \<^verbatim>\<open>_on_message\<close>), or
  that system with steps 3 and 4 done.
\<close>

lemma guarded_call_frame:
  "\<exists>w. guarded_call h t p s = Inl (s\<lparr>heap := w\<rparr>) \<or> guarded_call h t p s = Inr (s\<lparr>heap := w\<rparr>)"
  by (auto simp: guarded_call_def split: outcome.splits exc_class.splits)

lemma exact_dispatch_frame:
  "\<exists>w. exact_dispatch t p s = Inl (s\<lparr>heap := w\<rparr>) \<or> exact_dispatch t p s = Inr (s\<lparr>heap := w\<rparr>)"
proof (cases "topic_handlers s t")
  case None
  then have "exact_dispatch t p s = Inr (s\<lparr>heap := heap s\<rparr>)" by (simp add: exact_dispatch_def)
  then show ?thesis by blast
next
  case (Some h)
  then show ?thesis using guarded_call_frame [of h t p s] by (simp add: exact_dispatch_def)
qed

lemma prefix_fanout_frame:
  "\<exists>w. prefix_fanout hs t p (s\<lparr>heap := w0\<rparr>) = Inl (s\<lparr>heap := w\<rparr>) \<or> prefix_fanout hs t p (s\<lparr>heap := w0\<rparr>) = Inr (s\<lparr>heap := w\<rparr>)"
proof (induction hs arbitrary: w0)
  case Nil
  show ?case by auto
next
  case (Cons a hs)
  obtain pre cb where a: "a = (pre, cb)" by (cases a)
  show ?case
  proof (cases "prefix pre t")
    case False
    then show ?thesis using Cons.IH [of w0] by (simp add: a)
  next
    case True
    from guarded_call_frame [of cb t p "s\<lparr>heap := w0\<rparr>"]
    obtain w1 where "guarded_call cb t p (s\<lparr>heap := w0\<rparr>) = Inl (s\<lparr>heap := w1\<rparr>) \<or>
       guarded_call cb t p (s\<lparr>heap := w0\<rparr>) = Inr (s\<lparr>heap := w1\<rparr>)" by auto
    then show ?thesis using True Cons.IH [of w1] by (auto simp: a)
  qed
qed

lemma dispatch_cases:
  "\<exists>w. dispatch rt s m = s\<lparr>heap := w\<rparr> \<or>
       dispatch rt s m = one_shot_fill (topic m) (try_json rt (payload m))
          (rpc_correlation rt (topic m) (try_json rt (payload m)) (s\<lparr>heap := w\<rparr>))"
proof -
  let ?t = "topic m" and ?p = "try_json rt (payload m)"
  from exact_dispatch_frame [of ?t ?p s] obtain w1 where
    e: "exact_dispatch ?t ?p s = Inl (s\<lparr>heap := w1\<rparr>) \<or> exact_dispatch ?t ?p s = Inr (s\<lparr>heap := w1\<rparr>)"
    by blast
  from prefix_fanout_frame [where hs = "prefix_handlers s" and t = ?t and p = ?p and s = s and ?w0.0 = w1] obtain w2 where
    f: "prefix_fanout (prefix_handlers s) ?t ?p (s\<lparr>heap := w1\<rparr>) = Inl (s\<lparr>heap := w2\<rparr>) \<or>
        prefix_fanout (prefix_handlers s) ?t ?p (s\<lparr>heap := w1\<rparr>) = Inr (s\<lparr>heap := w2\<rparr>)"
    by blast
  from e f show ?thesis
    by (auto simp: dispatch_def on_message_def before_fill_def Let_def)
qed

lemma dispatch_frame:
  "trace (dispatch rt s m) = trace s \<and> topic_handlers (dispatch rt s m) = topic_handlers s \<and>
   prefix_handlers (dispatch rt s m) = prefix_handlers s"
  using dispatch_cases [of rt s m]
  by (auto simp: one_shot_fill_def rpc_correlation_def Let_def split: option.splits json.splits)

lemma dispatch_all_frame:
  "trace (dispatch_all rt ms s) = trace s \<and> topic_handlers (dispatch_all rt ms s) = topic_handlers s \<and>
   prefix_handlers (dispatch_all rt ms s) = prefix_handlers s"
  unfolding dispatch_all_def
  by (induction ms arbitrary: s) (simp_all add: dispatch_frame)

lemma dispatch_all_Nil: "dispatch_all rt [] s = s"
  by (simp add: dispatch_all_def)

lemma dispatch_all_Cons: "dispatch_all rt (m # ms) s = dispatch_all rt ms (dispatch rt s m)"
  by (simp add: dispatch_all_def)


text \<open>Steps 3 and 4, table by table.\<close>

lemma one_shot_rpc_correlation: "one_shot (rpc_correlation rt t p s) = one_shot s"
  by (simp add: rpc_correlation_def Let_def split: json.splits)

lemma one_shot_one_shot_fill:
  "one_shot (one_shot_fill t p s) =
     (if one_shot s t = None then one_shot s else (one_shot s)(t \<mapsto> p))"
  by (simp add: one_shot_fill_def split: option.splits)

lemma wait_by_key_one_shot_fill: "wait_by_key (one_shot_fill t p s) = wait_by_key s"
  by (simp add: one_shot_fill_def split: option.splits)

lemma wait_by_key_rpc_correlation:
  "wait_by_key (rpc_correlation rt t p s) =
     (case p of
        JObj d \<Rightarrow>
          if correlation_key rt d \<noteq> [] then (wait_by_key s)(correlation_key rt d \<mapsto> (t, p))
          else wait_by_key s
      | _ \<Rightarrow> wait_by_key s)"
  by (simp add: rpc_correlation_def Let_def split: json.splits)

lemma heap_one_shot_fill: "heap (one_shot_fill t p s) = heap s"
  by (simp add: one_shot_fill_def split: option.splits)

lemma heap_rpc_correlation: "heap (rpc_correlation rt t p s) = heap s"
  by (simp add: rpc_correlation_def Let_def split: json.splits)

lemma dispatch_one_shot:
  "one_shot (dispatch rt s m) = one_shot s \<or>
   (one_shot s (topic m) \<noteq> None \<and>
    one_shot (dispatch rt s m) = (one_shot s)(topic m \<mapsto> try_json rt (payload m)))"
proof -
  from dispatch_cases [of rt s m] obtain w where
    "dispatch rt s m = s\<lparr>heap := w\<rparr> \<or>
     dispatch rt s m = one_shot_fill (topic m) (try_json rt (payload m))
          (rpc_correlation rt (topic m) (try_json rt (payload m)) (s\<lparr>heap := w\<rparr>))"
    by blast
  then show ?thesis
  proof
    assume "dispatch rt s m = s\<lparr>heap := w\<rparr>"
    then show ?thesis by simp
  next
    assume "dispatch rt s m = one_shot_fill (topic m) (try_json rt (payload m))
          (rpc_correlation rt (topic m) (try_json rt (payload m)) (s\<lparr>heap := w\<rparr>))"
    then show ?thesis
      by (simp add: one_shot_one_shot_fill one_shot_rpc_correlation)
  qed
qed

lemma dispatch_wait_by_key:
  "wait_by_key (dispatch rt s m) = wait_by_key s \<or>
   (\<exists>k. message_key rt m = Some k \<and>
        wait_by_key (dispatch rt s m) = (wait_by_key s)(k \<mapsto> (topic m, try_json rt (payload m))))"
proof -
  from dispatch_cases [of rt s m] obtain w where
    "dispatch rt s m = s\<lparr>heap := w\<rparr> \<or>
     dispatch rt s m = one_shot_fill (topic m) (try_json rt (payload m))
          (rpc_correlation rt (topic m) (try_json rt (payload m)) (s\<lparr>heap := w\<rparr>))"
    by blast
  then show ?thesis
  proof
    assume "dispatch rt s m = s\<lparr>heap := w\<rparr>"
    then show ?thesis by simp
  next
    assume "dispatch rt s m = one_shot_fill (topic m) (try_json rt (payload m))
          (rpc_correlation rt (topic m) (try_json rt (payload m)) (s\<lparr>heap := w\<rparr>))"
    then show ?thesis
      by (simp add: wait_by_key_one_shot_fill wait_by_key_rpc_correlation message_key_def
            split: json.splits)
  qed
qed

text \<open>
  When the matching handlers raise nothing but \<^verbatim>\<open>Exception\<close>s, every one of them runs and the
  dispatch completes. An exception that is a \<^verbatim>\<open>BaseException\<close> only is not caught.
\<close>

lemma guarded_call_caught:
  "raises_only_Exception h t p \<Longrightarrow>
   guarded_call h t p s = Inr (s\<lparr>heap := heap_after (h t p (heap s))\<rparr>)"
  by (auto simp: guarded_call_def raises_only_Exception_def heap_after_def
           split: outcome.splits exc_class.splits)

lemma prefix_fanout_caught:
  "\<forall>h \<in> set (map snd (filter (\<lambda>(pre, cb). prefix pre t) hs)). raises_only_Exception h t p \<Longrightarrow>
   prefix_fanout hs t p s =
     Inr (s\<lparr>heap := run_all t p (map snd (filter (\<lambda>(pre, cb). prefix pre t) hs)) (heap s)\<rparr>)"
proof (induction hs arbitrary: s)
  case Nil
  show ?case by (simp add: run_all_def)
next
  case (Cons a hs)
  obtain pre cb where a: "a = (pre, cb)" by (cases a)
  show ?case
  proof (cases "prefix pre t")
    case False
    then show ?thesis using Cons by (simp add: a)
  next
    case True
    with Cons.prems have cb: "raises_only_Exception cb t p" by (simp add: a)
    have rest: "\<forall>h \<in> set (map snd (filter (\<lambda>(pre, cb). prefix pre t) hs)). raises_only_Exception h t p"
      using Cons.prems by (simp add: a)
    show ?thesis
      using True Cons.IH [OF rest] by (simp add: a guarded_call_caught [OF cb] run_all_def)
  qed
qed

lemma before_fill_completes:
  assumes "\<forall>h \<in> set (matching_handlers s (topic m)). raises_only_Exception h (topic m) (try_json rt (payload m))"
  shows "before_fill rt m s =
     Inr (rpc_correlation rt (topic m) (try_json rt (payload m))
           (s\<lparr>heap := run_all (topic m) (try_json rt (payload m)) (matching_handlers s (topic m)) (heap s)\<rparr>))"
proof -
  let ?t = "topic m" and ?p = "try_json rt (payload m)"
  let ?pre = "map snd (filter (\<lambda>(pre, cb). prefix pre ?t) (prefix_handlers s))"
  have pre: "\<forall>h \<in> set ?pre. raises_only_Exception h ?t ?p"
    using assms by (simp add: matching_handlers_def)
  show ?thesis
  proof (cases "topic_handlers s ?t")
    case None
    then have e: "exact_dispatch ?t ?p s = Inr s" by (simp add: exact_dispatch_def)
    show ?thesis
      using None prefix_fanout_caught [OF pre, of s]
      by (simp add: before_fill_def Let_def e matching_handlers_def)
  next
    case (Some h)
    with assms have h: "raises_only_Exception h ?t ?p" by (simp add: matching_handlers_def)
    have e: "exact_dispatch ?t ?p s = Inr (s\<lparr>heap := heap_after (h ?t ?p (heap s))\<rparr>)"
      using Some guarded_call_caught [OF h] by (simp add: exact_dispatch_def)
    show ?thesis
      using Some prefix_fanout_caught [OF pre, of "s\<lparr>heap := heap_after (h ?t ?p (heap s))\<rparr>"]
      by (simp add: before_fill_def Let_def e matching_handlers_def run_all_def)
  qed
qed

lemma on_message_completes:
  assumes "\<forall>h \<in> set (matching_handlers s (topic m)). raises_only_Exception h (topic m) (try_json rt (payload m))"
  shows "on_message rt m s =
     Inr (one_shot_fill (topic m) (try_json rt (payload m))
           (rpc_correlation rt (topic m) (try_json rt (payload m))
             (s\<lparr>heap := run_all (topic m) (try_json rt (payload m)) (matching_handlers s (topic m)) (heap s)\<rparr>)))"
  by (simp add: on_message_def before_fill_completes [OF assms])


lemma dispatch_behaved:
  assumes "handlers_raise_only_Exception s"
  shows "dispatch rt s m =
     one_shot_fill (topic m) (try_json rt (payload m))
       (rpc_correlation rt (topic m) (try_json rt (payload m))
         (s\<lparr>heap := run_all (topic m) (try_json rt (payload m)) (matching_handlers s (topic m)) (heap s)\<rparr>))"
proof -
  have "\<forall>h \<in> set (matching_handlers s (topic m)). raises_only_Exception h (topic m) (try_json rt (payload m))"
    using assms by (simp add: handlers_raise_only_Exception_def)
  from on_message_completes [OF this] show ?thesis by (simp add: dispatch_def)
qed

lemma behaved_frame:
  "topic_handlers s' = topic_handlers s \<Longrightarrow> prefix_handlers s' = prefix_handlers s \<Longrightarrow>
   handlers_raise_only_Exception s' = handlers_raise_only_Exception s"
  by (simp add: handlers_raise_only_Exception_def matching_handlers_def)

lemma dispatch_keeps_behaved:
  "handlers_raise_only_Exception (dispatch rt s m) = handlers_raise_only_Exception s"
  by (rule behaved_frame) (simp_all add: dispatch_frame)

lemma dispatch_all_keeps_behaved:
  "handlers_raise_only_Exception (dispatch_all rt ms s) = handlers_raise_only_Exception s"
  by (rule behaved_frame) (simp_all add: dispatch_all_frame)

text \<open>Slots and entries over a run of dispatches.\<close>

lemma dispatch_behaved_slot:
  assumes "handlers_raise_only_Exception s" and "one_shot s t = Some cur"
  shows "one_shot (dispatch rt s m) t = Some (if topic m = t then try_json rt (payload m) else cur)"
  using assms(2)
  by (auto simp add: dispatch_behaved [OF assms(1)] one_shot_one_shot_fill one_shot_rpc_correlation)

lemma dispatch_all_behaved_slot:
  "handlers_raise_only_Exception s \<Longrightarrow> one_shot s t = Some cur \<Longrightarrow>
   one_shot (dispatch_all rt ms s) t = Some (latest_payload rt t ms cur)"
proof (induction ms arbitrary: s cur)
  case Nil
  then show ?case by (simp add: dispatch_all_Nil latest_payload_def)
next
  case (Cons m ms)
  have b: "handlers_raise_only_Exception (dispatch rt s m)"
    using Cons.prems(1) by (simp add: dispatch_keeps_behaved)
  have sl: "one_shot (dispatch rt s m) t = Some (if topic m = t then try_json rt (payload m) else cur)"
    by (rule dispatch_behaved_slot [OF Cons.prems])
  from Cons.IH [OF b sl] show ?case
    by (simp add: dispatch_all_Cons latest_payload_def)
qed

lemma dispatch_slot_stays_empty:
  assumes "one_shot s t = Some (JObj [])" and "topic m = t \<longrightarrow> try_json rt (payload m) = JObj []"
  shows "one_shot (dispatch rt s m) t = Some (JObj [])"
  using dispatch_one_shot [of rt s m] assms by auto

lemma dispatch_all_slot_stays_empty:
  "one_shot s t = Some (JObj []) \<Longrightarrow>
   \<forall>m \<in> set ms. topic m = t \<longrightarrow> try_json rt (payload m) = JObj [] \<Longrightarrow>
   one_shot (dispatch_all rt ms s) t = Some (JObj [])"
proof (induction ms arbitrary: s)
  case Nil
  then show ?case by (simp add: dispatch_all_Nil)
next
  case (Cons m ms)
  have "one_shot (dispatch rt s m) t = Some (JObj [])"
    using Cons.prems by (intro dispatch_slot_stays_empty) simp_all
  with Cons show ?case by (simp add: dispatch_all_Cons)
qed

lemma dispatch_entry_origin:
  assumes "wait_by_key (dispatch rt s m) k = Some e"
  shows "wait_by_key s k = Some e \<or>
         (message_key rt m = Some k \<and> e = (topic m, try_json rt (payload m)))"
  using dispatch_wait_by_key [of rt s m] assms by (auto split: if_splits)

lemma dispatch_all_entry_origin:
  "wait_by_key (dispatch_all rt ms s) k = Some e \<Longrightarrow>
   wait_by_key s k = Some e \<or>
   (\<exists>m \<in> set ms. message_key rt m = Some k \<and> e = (topic m, try_json rt (payload m)))"
proof (induction ms arbitrary: s)
  case Nil
  then show ?case by (simp add: dispatch_all_Nil)
next
  case (Cons m ms)
  from Cons.prems have "wait_by_key (dispatch_all rt ms (dispatch rt s m)) k = Some e"
    by (simp add: dispatch_all_Cons)
  from Cons.IH [OF this] show ?case
    using dispatch_entry_origin [of rt s m k e] by auto
qed


lemma dispatch_behaved_entry:
  assumes "handlers_raise_only_Exception s"
  shows "wait_by_key (dispatch rt s m) k =
           (if message_key rt m = Some k \<and> k \<noteq> [] then Some (topic m, try_json rt (payload m))
            else wait_by_key s k)"
  by (auto simp add: dispatch_behaved [OF assms] wait_by_key_one_shot_fill
        wait_by_key_rpc_correlation message_key_def split: json.splits)

lemma dispatch_all_behaved_entry:
  "handlers_raise_only_Exception s \<Longrightarrow>
   wait_by_key (dispatch_all rt ms s) k = latest_entry rt k ms (wait_by_key s k)"
proof (induction ms arbitrary: s)
  case Nil
  then show ?case by (simp add: dispatch_all_Nil latest_entry_def)
next
  case (Cons m ms)
  have b: "handlers_raise_only_Exception (dispatch rt s m)"
    using Cons.prems by (simp add: dispatch_keeps_behaved)
  from Cons.IH [OF b] show ?case
    by (simp add: dispatch_all_Cons latest_entry_def dispatch_behaved_entry [OF Cons.prems])
qed

text \<open>Facts about the sample installation.\<close>

lemma sample_base: "Z2M_BASE sample_runtime = ''zigbee2mqtt''"
  by (simp add: sample_runtime_def)

lemma idle_trace: "trace idle = []"
  by (simp add: idle_def)

lemma idle_tables: "wait_by_key idle = Map.empty" "one_shot idle = Map.empty"
  by (simp_all add: idle_def)

lemma idle_behaved: "handlers_raise_only_Exception idle"
  by (simp add: handlers_raise_only_Exception_def matching_handlers_def idle_def)

lemma sample_lamp:
  "topic lamp_on = ''zigbee2mqtt/lamp''" "topic lamp_off = ''zigbee2mqtt/lamp''"
  "topic lamp_empty = ''zigbee2mqtt/lamp''" "topic lamp_braces = ''zigbee2mqtt/lamp''"
  "try_json sample_runtime (payload lamp_on) = JObj [(''state'', JStr ''ON'')]"
  "try_json sample_runtime (payload lamp_off) = JObj [(''state'', JStr ''OFF'')]"
  "try_json sample_runtime (payload lamp_empty) = JObj []"
  "try_json sample_runtime (payload lamp_braces) = JObj []"
  by (simp_all add: lamp_on_def lamp_off_def lamp_empty_def lamp_braces_def try_json_def
        sample_runtime_def sample_loads_def is_ascii_def)

lemma sample_bridge:
  "topic request_echo = ''zigbee2mqtt/bridge/request/health_check''"
  "topic health_reply = ''zigbee2mqtt/bridge/response/health_check''"
  "topic stray_reply = ''zigbee2mqtt/bridge/response/health_check''"
  "try_json sample_runtime (payload request_echo) =
     JObj [(''transaction'', JStr ''3f9a01bc''), (''id'', JStr ''3f9a01bc'')]"
  "try_json sample_runtime (payload health_reply) =
     JObj [(''status'', JStr ''ok''), (''transaction'', JStr ''3f9a01bc'')]"
  "try_json sample_runtime (payload stray_reply) =
     JObj [(''status'', JStr ''ok''), (''transaction'', JStr ''7e11d2c4'')]"
  by (simp_all add: request_echo_def health_reply_def stray_reply_def try_json_def
        sample_runtime_def sample_loads_def is_ascii_def)

lemma sample_keys:
  "message_key sample_runtime request_echo = Some ''3f9a01bc''"
  "message_key sample_runtime health_reply = Some ''3f9a01bc''"
  "message_key sample_runtime stray_reply = Some ''7e11d2c4''"
  by (simp_all add: message_key_def sample_bridge correlation_key_def py_or_def dict_get_def
        py_str_def)


lemma sample_offline:
  "bytes_decode sample_runtime ''offline'' = Some ''offline''"
  "json_loads sample_runtime ''offline'' = None"
  "bytes_decode_ignore sample_runtime ''offline'' = ''offline''"
  by (simp_all add: sample_runtime_def sample_loads_def is_ascii_def)




lemma state_handler_caught: "raises_only_Exception (state_handler c) t p"
  by (simp add: raises_only_Exception_def state_handler_def)

lemma waiting_matching: "matching_handlers waiting ''zigbee2mqtt/bridge/state'' = [state_handler 0]"
  by (simp add: matching_handlers_def waiting_def idle_def)

lemma waiting_tables:
  "one_shot waiting = [''zigbee2mqtt/bridge/state'' \<mapsto> JObj []]"
  "cells (heap waiting) = (\<lambda>c. \<lparr>confirmed_state = JObj [], received_event = False\<rparr>)"
  by (simp_all add: waiting_def idle_def)







lemma idle_handlers: "topic_handlers idle = Map.empty" "prefix_handlers idle = []"
  by (simp_all add: idle_def)

lemma idle_heap:
  "allocated (heap idle) = 0"
  "cells (heap idle) = (\<lambda>c. \<lparr>confirmed_state = JObj [], received_event = False\<rparr>)"
  by (simp_all add: idle_def)

section \<open>Properties of the parse step\<close>

lemma try_json_unparseable:
  assumes "bytes_decode rt data = None \<or>
           (\<exists>txt. bytes_decode rt data = Some txt \<and> txt \<noteq> [] \<and> json_loads rt txt = None)"
  shows "try_json rt data = raw_fallback rt data"
  using assms by (auto simp: try_json_def)

lemma raw_fallback_no_key: "rpc_correlation rt t (raw_fallback rt data) s = s"
  by (simp add: rpc_correlation_def raw_fallback_def correlation_key_def py_or_def dict_get_def
        py_str_def)

text \<open>
  C7, as the code has it. An inbound byte sequence that is not valid UTF-8, or whose text is
  not empty and does not parse as JSON, is turned into a dict with the single key
  \<^verbatim>\<open>"_raw"\<close>, whose value is the bytes decoded leniently (undecodable bytes dropped); the
  parse step is total, it raises nothing. The dispatch of such a message completes when no
  matching handler raises more than an \<^verbatim>\<open>Exception\<close>: every matching handler is called with
  the wrapped payload, and the slot of the topic, if there is one, is filled with it. (The
  wrapped payload carries no correlation value, so step 3 files nothing.) The empty byte
  sequence is left out: see the next statement but one.
\<close>

theorem unparseable_payload_is_wrapped:
  assumes "bytes_decode rt data = None \<or>
           (\<exists>txt. bytes_decode rt data = Some txt \<and> txt \<noteq> [] \<and> json_loads rt txt = None)"
  shows "try_json rt data = JObj [(''_raw'', JStr (bytes_decode_ignore rt data))] \<and>
         ((\<forall>h \<in> set (matching_handlers s t).
              raises_only_Exception h t (JObj [(''_raw'', JStr (bytes_decode_ignore rt data))])) \<longrightarrow>
          on_message rt (MQTTMessage t data) s =
            Inr (one_shot_fill t (JObj [(''_raw'', JStr (bytes_decode_ignore rt data))])
                  (s\<lparr>heap := run_all t (JObj [(''_raw'', JStr (bytes_decode_ignore rt data))])
                               (matching_handlers s t) (heap s)\<rparr>)))"
proof -
  have p: "try_json rt data = raw_fallback rt data"
    using assms by (rule try_json_unparseable)
  have raw: "raw_fallback rt data = JObj [(''_raw'', JStr (bytes_decode_ignore rt data))]"
    by (simp add: raw_fallback_def)
  have "on_message rt (MQTTMessage t data) s =
          Inr (one_shot_fill t (raw_fallback rt data)
                (s\<lparr>heap := run_all t (raw_fallback rt data) (matching_handlers s t) (heap s)\<rparr>))"
    if "\<forall>h \<in> set (matching_handlers s t). raises_only_Exception h t (raw_fallback rt data)"
  proof -
    from that have "\<forall>h \<in> set (matching_handlers s (topic (MQTTMessage t data))).
        raises_only_Exception h (topic (MQTTMessage t data))
          (try_json rt (payload (MQTTMessage t data)))"
      by (simp add: p)
    from on_message_completes [OF this] show ?thesis
      by (simp add: p raw_fallback_no_key)
  qed
  with p raw show ?thesis by simp
qed

text \<open>
  On the sample installation: the bridge announces \<^verbatim>\<open>offline\<close> in plain text; the handler
  and the slot on that topic both get \<^verbatim>\<open>{"_raw": "offline"}\<close>.
\<close>

theorem unparseable_payload_is_wrapped_witness:
  "try_json sample_runtime ''offline'' = JObj [(''_raw'', JStr ''offline'')] \<and>
   (\<exists>s'. on_message sample_runtime (MQTTMessage ''zigbee2mqtt/bridge/state'' ''offline'') waiting = Inr s' \<and>
         one_shot s' ''zigbee2mqtt/bridge/state'' = Some (JObj [(''_raw'', JStr ''offline'')]) \<and>
         confirmed_state (cells (heap s') 0) = JObj [(''_raw'', JStr ''offline'')])"
proof -
  have un: "bytes_decode sample_runtime ''offline'' = None \<or>
     (\<exists>txt. bytes_decode sample_runtime ''offline'' = Some txt \<and> txt \<noteq> [] \<and>
            json_loads sample_runtime txt = None)"
    by (simp add: sample_offline)
  have h: "\<forall>h \<in> set (matching_handlers waiting ''zigbee2mqtt/bridge/state'').
     raises_only_Exception h ''zigbee2mqtt/bridge/state''
       (JObj [(''_raw'', JStr (bytes_decode_ignore sample_runtime ''offline''))])"
    by (simp add: waiting_matching state_handler_caught)
  from unparseable_payload_is_wrapped [OF un, of waiting "''zigbee2mqtt/bridge/state''"] h
  show ?thesis
    by (simp add: sample_offline waiting_matching waiting_tables run_all_def heap_after_def
          state_handler_def one_shot_one_shot_fill heap_one_shot_fill)
qed

text \<open>
  The empty byte sequence decodes to the empty text, which \<^verbatim>\<open>json.loads\<close> rejects; but
  \<^verbatim>\<open>_try_json\<close> never gets that far, it answers \<^verbatim>\<open>{}\<close> for the empty text, not
  \<^verbatim>\<open>{"_raw": ""}\<close>.
\<close>

theorem empty_payload_is_not_wrapped:
  "bytes_decode sample_runtime [] = Some [] \<and> json_loads sample_runtime [] = None \<and>
   try_json sample_runtime [] = JObj [] \<and>
   try_json sample_runtime [] \<noteq> JObj [(''_raw'', JStr (bytes_decode_ignore sample_runtime []))]"
  by (simp add: try_json_def sample_runtime_def sample_loads_def)

section \<open>Properties of the dispatch\<close>




section \<open>Properties of the correlation engine\<close>

lemma rpc_fst:
  "fst (rpc rt request_topic body corr rounds late s) =
     (case fst (rpc_loop rt corr rounds
                  (s\<lparr>trace := trace s @
                        [Client_publish request_topic
                           (JObj (setdefault ''id'' (JStr corr)
                                    (setdefault ''transaction'' (JStr corr)
                                       (case body of None \<Rightarrow> [] | Some d \<Rightarrow> d)))) 0 False]\<rparr>)) of
        Some res \<Rightarrow> Inr res
      | None \<Rightarrow> Inl TimeoutError)"
  by (simp add: rpc_def Let_def split: prod.splits option.splits)


lemma rpc_loop_origin:
  "fst (rpc_loop rt corr rounds s) = Some pl \<Longrightarrow>
   \<exists>t. prefix (Z2M_BASE rt @ ''/bridge/response/'') t \<and>
       (wait_by_key s corr = Some (t, pl) \<or>
        (\<exists>m \<in> set (concat rounds).
            message_key rt m = Some corr \<and> topic m = t \<and> try_json rt (payload m) = pl))"
proof (induction rounds arbitrary: s)
  case Nil
  then show ?case by simp
next
  case (Cons r rounds)
  let ?s1 = "dispatch_all rt r s"
  let ?s2 = "?s1\<lparr>wait_by_key := (wait_by_key ?s1)(corr := None)\<rparr>"
  have later: ?case if "fst (rpc_loop rt corr rounds ?s2) = Some pl"
  proof -
    from Cons.IH [OF that] show ?thesis by auto
  qed
  show ?case
  proof (cases "wait_by_key ?s1 corr")
    case None
    with Cons.prems have "fst (rpc_loop rt corr rounds ?s2) = Some pl" by (simp add: Let_def)
    then show ?thesis by (rule later)
  next
    case (Some e)
    obtain t v where e: "e = (t, v)" by (cases e)
    show ?thesis
    proof (cases "prefix (Z2M_BASE rt @ ''/bridge/response/'') t")
      case False
      with Some e Cons.prems have "fst (rpc_loop rt corr rounds ?s2) = Some pl"
        by (simp add: Let_def)
      then show ?thesis by (rule later)
    next
      case True
      with Some e Cons.prems have "v = pl" by (simp add: Let_def)
      with Some e have "wait_by_key ?s1 corr = Some (t, pl)" by simp
      from dispatch_all_entry_origin [OF this] True show ?thesis by auto
    qed
  qed
qed






lemma rpc_loop_behaved:
  "handlers_raise_only_Exception s \<Longrightarrow>
   fst (rpc_loop rt corr rounds s) = first_response_poll rt corr rounds (wait_by_key s corr)"
proof (induction rounds arbitrary: s)
  case Nil
  then show ?case by simp
next
  case (Cons r rounds)
  let ?s1 = "dispatch_all rt r s"
  let ?s2 = "?s1\<lparr>wait_by_key := (wait_by_key ?s1)(corr := None)\<rparr>"
  have "handlers_raise_only_Exception ?s1"
    using Cons.prems by (simp add: dispatch_all_keeps_behaved)
  then have b: "handlers_raise_only_Exception ?s2"
    using behaved_frame [of ?s2 ?s1] by simp
  have e: "wait_by_key ?s1 corr = latest_entry rt corr r (wait_by_key s corr)"
    by (rule dispatch_all_behaved_entry [OF Cons.prems])
  from Cons.IH [OF b] show ?case
    by (simp add: Let_def e split: option.splits prod.splits)
qed

lemma rpc_behaved:
  assumes "handlers_raise_only_Exception s"
  shows "fst (rpc rt request_topic body corr rounds late s) =
     (case first_response_poll rt corr rounds (wait_by_key s corr) of
        Some res \<Rightarrow> Inr res
      | None \<Rightarrow> Inl TimeoutError)"
proof -
  let ?s0 = "s\<lparr>trace := trace s @
                        [Client_publish request_topic
                           (JObj (setdefault ''id'' (JStr corr)
                                    (setdefault ''transaction'' (JStr corr)
                                       (case body of None \<Rightarrow> [] | Some d \<Rightarrow> d)))) 0 False]\<rparr>"
  have "handlers_raise_only_Exception ?s0"
    using assms behaved_frame [of ?s0 s] by simp
  from rpc_loop_behaved [OF this, of rt corr rounds] show ?thesis
    by (simp add: rpc_fst)
qed




text \<open>
  C5. When \<^verbatim>\<open>rpc\<close> returns a payload, the payload was filed under the call's id from a topic
  below \<^verbatim>\<open>Z2M_BASE/bridge/response/\<close>: it is the payload of a message of that topic dispatched
  during the polls and carrying the id (or of an entry that was there before the call). And
  when nothing is filed under the id beforehand and no message on a response topic carries
  it, the call fails with \<^verbatim>\<open>TimeoutError\<close>, whatever else is dispatched.
\<close>

theorem rpc_returns_only_response_topic:
  "(fst (rpc rt request_topic body corr rounds late s) = Inr pl \<longrightarrow>
      (\<exists>t. prefix (Z2M_BASE rt @ ''/bridge/response/'') t \<and>
           (wait_by_key s corr = Some (t, pl) \<or>
            (\<exists>m \<in> set (concat rounds).
                message_key rt m = Some corr \<and> topic m = t \<and> try_json rt (payload m) = pl)))) \<and>
   (wait_by_key s corr = None \<and>
    (\<forall>m \<in> set (concat rounds).
        prefix (Z2M_BASE rt @ ''/bridge/response/'') (topic m) \<longrightarrow> message_key rt m \<noteq> Some corr) \<longrightarrow>
      fst (rpc rt request_topic body corr rounds late s) = Inl TimeoutError)"
proof -
  let ?s0 = "s\<lparr>trace := trace s @
                        [Client_publish request_topic
                           (JObj (setdefault ''id'' (JStr corr)
                                    (setdefault ''transaction'' (JStr corr)
                                       (case body of None \<Rightarrow> [] | Some d \<Rightarrow> d)))) 0 False]\<rparr>"
  have origin: "\<exists>t. prefix (Z2M_BASE rt @ ''/bridge/response/'') t \<and>
           (wait_by_key s corr = Some (t, v) \<or>
            (\<exists>m \<in> set (concat rounds).
                message_key rt m = Some corr \<and> topic m = t \<and> try_json rt (payload m) = v))"
    if "fst (rpc_loop rt corr rounds ?s0) = Some v" for v
    using rpc_loop_origin [OF that] by simp
  have first: "fst (rpc rt request_topic body corr rounds late s) = Inr pl \<longrightarrow>
      (\<exists>t. prefix (Z2M_BASE rt @ ''/bridge/response/'') t \<and>
           (wait_by_key s corr = Some (t, pl) \<or>
            (\<exists>m \<in> set (concat rounds).
                message_key rt m = Some corr \<and> topic m = t \<and> try_json rt (payload m) = pl)))"
    using origin [of pl] by (auto simp: rpc_fst split: option.splits)
  have second: "fst (rpc rt request_topic body corr rounds late s) = Inl TimeoutError"
    if none: "wait_by_key s corr = None"
      and other: "\<forall>m \<in> set (concat rounds).
        prefix (Z2M_BASE rt @ ''/bridge/response/'') (topic m) \<longrightarrow> message_key rt m \<noteq> Some corr"
  proof (cases "fst (rpc_loop rt corr rounds ?s0)")
    case None
    then show ?thesis by (simp add: rpc_fst)
  next
    case (Some v)
    from origin [OF this] none other have False by auto
    then show ?thesis ..
  qed
  from first second show ?thesis by blast
qed

text \<open>
  On the sample installation: the reply is returned, the echo and the stray reply are not;
  with the echo and the stray reply alone the call times out.
\<close>

theorem rpc_returns_only_response_topic_witness:
  "fst (rpc sample_runtime ''zigbee2mqtt/bridge/request/health_check'' (Some []) ''3f9a01bc''
          [[request_echo], [stray_reply, health_reply]] [] idle) =
     Inr (JObj [(''status'', JStr ''ok''), (''transaction'', JStr ''3f9a01bc'')]) \<and>
   (\<exists>t. prefix ''zigbee2mqtt/bridge/response/'' t \<and>
        (\<exists>m \<in> set [request_echo, stray_reply, health_reply].
            message_key sample_runtime m = Some ''3f9a01bc'' \<and> topic m = t \<and>
            try_json sample_runtime (payload m) =
              JObj [(''status'', JStr ''ok''), (''transaction'', JStr ''3f9a01bc'')])) \<and>
   fst (rpc sample_runtime ''zigbee2mqtt/bridge/request/health_check'' (Some []) ''3f9a01bc''
          [[request_echo], [stray_reply]] [] idle) = Inl TimeoutError"
proof -
  let ?rq = "''zigbee2mqtt/bridge/request/health_check''"
  let ?reply = "JObj [(''status'', JStr ''ok''), (''transaction'', JStr ''3f9a01bc'')]"
  have ok: "fst (rpc sample_runtime ?rq (Some []) ''3f9a01bc''
                   [[request_echo], [stray_reply, health_reply]] [] idle) = Inr ?reply"
    by (simp add: rpc_behaved [OF idle_behaved] idle_tables latest_entry_def sample_keys
          sample_bridge sample_base)
  have none: "wait_by_key idle ''3f9a01bc'' = None"
    by (simp add: idle_tables)
  have other: "\<forall>m \<in> set (concat [[request_echo], [stray_reply]]).
      prefix (Z2M_BASE sample_runtime @ ''/bridge/response/'') (topic m) \<longrightarrow>
      message_key sample_runtime m \<noteq> Some ''3f9a01bc''"
    by (simp add: sample_keys sample_bridge sample_base)
  from rpc_returns_only_response_topic [of sample_runtime ?rq "Some []" "''3f9a01bc''"
             "[[request_echo], [stray_reply, health_reply]]" "[]" idle ?reply] ok
  have "\<exists>t. prefix (Z2M_BASE sample_runtime @ ''/bridge/response/'') t \<and>
           (wait_by_key idle ''3f9a01bc'' = Some (t, ?reply) \<or>
            (\<exists>m \<in> set (concat [[request_echo], [stray_reply, health_reply]]).
                message_key sample_runtime m = Some ''3f9a01bc'' \<and> topic m = t \<and>
                try_json sample_runtime (payload m) = ?reply))"
    by blast
  then have origin: "\<exists>t. prefix ''zigbee2mqtt/bridge/response/'' t \<and>
        (\<exists>m \<in> set [request_echo, stray_reply, health_reply].
            message_key sample_runtime m = Some ''3f9a01bc'' \<and> topic m = t \<and>
            try_json sample_runtime (payload m) = ?reply)"
    by (simp add: none sample_base)
  from rpc_returns_only_response_topic [of sample_runtime ?rq "Some []" "''3f9a01bc''"
             "[[request_echo], [stray_reply]]" "[]" idle ?reply] none other
  have "fst (rpc sample_runtime ?rq (Some []) ''3f9a01bc''
               [[request_echo], [stray_reply]] [] idle) = Inl TimeoutError"
    by blast
  with ok origin show ?thesis by blast
qed

section \<open>Properties of the snapshot waiter\<close>

lemma wait_for_fst:
  "fst (wait_for rt t rounds late racing s) =
     (case fst (wait_for_loop rt t rounds
                  (s\<lparr>one_shot := (one_shot s)(t \<mapsto> JObj []),
                     trace := trace s @ [Client_subscribe t]\<rparr>)) of
        Some pl \<Rightarrow> pl
      | None \<Rightarrow> JObj [])"
  by (simp add: wait_for_def Let_def split: prod.splits option.splits)

lemma wait_for_loop_behaved:
  "handlers_raise_only_Exception s \<Longrightarrow> one_shot s t = Some cur \<Longrightarrow>
   fst (wait_for_loop rt t rounds s) = first_true_poll rt t rounds cur"
proof (induction rounds arbitrary: s cur)
  case Nil
  then show ?case by simp
next
  case (Cons r rounds)
  let ?s1 = "dispatch_all rt r s"
  have sl: "one_shot ?s1 t = Some (latest_payload rt t r cur)"
    by (rule dispatch_all_behaved_slot [OF Cons.prems])
  have b: "handlers_raise_only_Exception ?s1"
    using Cons.prems(1) by (simp add: dispatch_all_keeps_behaved)
  show ?case
    using sl Cons.IH [OF b sl] by (simp add: Let_def)
qed

lemma wait_for_behaved:
  assumes "handlers_raise_only_Exception s"
  shows "fst (wait_for rt t rounds late racing s) =
           (case first_true_poll rt t rounds (JObj []) of Some pl \<Rightarrow> pl | None \<Rightarrow> JObj [])"
proof -
  let ?s0 = "s\<lparr>one_shot := (one_shot s)(t \<mapsto> JObj []), trace := trace s @ [Client_subscribe t]\<rparr>"
  have b: "handlers_raise_only_Exception ?s0"
    using assms behaved_frame [of ?s0 s] by simp
  have sl: "one_shot ?s0 t = Some (JObj [])" by simp
  have "fst (wait_for_loop rt t rounds ?s0) = first_true_poll rt t rounds (JObj [])"
    by (rule wait_for_loop_behaved [OF b sl])
  then show ?thesis
    by (simp add: wait_for_fst)
qed

lemma latest_payload_other:
  "\<forall>m \<in> set ms. topic m \<noteq> t \<Longrightarrow> latest_payload rt t ms cur = cur"
  unfolding latest_payload_def by (induction ms arbitrary: cur) simp_all

lemma first_true_poll_silent:
  "\<forall>m \<in> set (concat rounds). topic m \<noteq> t \<Longrightarrow> \<not> truthy cur \<Longrightarrow>
   first_true_poll rt t rounds cur = None"
  by (induction rounds arbitrary: cur) (simp_all add: latest_payload_other Let_def)

lemma wait_for_loop_empty:
  "one_shot s t = Some (JObj []) \<Longrightarrow>
   \<forall>m \<in> set (concat rounds). topic m = t \<longrightarrow> try_json rt (payload m) = JObj [] \<Longrightarrow>
   fst (wait_for_loop rt t rounds s) = None"
proof (induction rounds arbitrary: s)
  case Nil
  then show ?case by simp
next
  case (Cons r rounds)
  have sl: "one_shot (dispatch_all rt r s) t = Some (JObj [])"
    using Cons.prems by (intro dispatch_all_slot_stays_empty) simp_all
  have "fst (wait_for_loop rt t rounds (dispatch_all rt r s)) = None"
    using Cons.prems by (intro Cons.IH [OF sl]) simp
  with sl show ?case by (simp add: Let_def)
qed

lemma wait_for_loop_true:
  "fst (wait_for_loop rt t rounds s) = Some pl \<Longrightarrow> truthy pl"
  by (induction rounds arbitrary: s) (auto simp: Let_def split: if_splits)

lemma wait_for_loop_pops:
  "fst (wait_for_loop rt t rounds s) = Some pl \<Longrightarrow>
   one_shot (snd (wait_for_loop rt t rounds s)) t = None"
  by (induction rounds arbitrary: s) (auto simp: Let_def split: if_splits)

text \<open>
  C3, as the code has it. Every message on the topic overwrites the slot, and a poll takes
  the slot only when its payload is true. So \<^verbatim>\<open>wait_for\<close> returns the payload that the last
  message on the topic before the first successful poll carried, which is the first one
  only if no other came in before that poll; messages of the first round include a retained
  one delivered on subscribing. When no poll finds a true payload, and in particular when
  no message arrives on the topic, it returns \<^verbatim>\<open>{}\<close>. (Stated for handlers that raise
  nothing but \<^verbatim>\<open>Exception\<close>s, so that every dispatch completes.)
\<close>

theorem wait_for_returns_latest_payload:
  assumes "handlers_raise_only_Exception s"
  shows "fst (wait_for rt t rounds late racing s) =
           (case first_true_poll rt t rounds (JObj []) of Some pl \<Rightarrow> pl | None \<Rightarrow> JObj []) \<and>
         ((\<forall>m \<in> set (concat rounds). topic m \<noteq> t) \<longrightarrow>
            fst (wait_for rt t rounds late racing s) = JObj [])"
  using wait_for_behaved [OF assms, of rt t rounds late]
  by (auto simp: first_true_poll_silent)

text \<open>
  On the sample installation: an empty message, then ON and OFF between two polls: OFF is
  returned. On a topic where nothing arrives: \<^verbatim>\<open>{}\<close>.
\<close>

theorem wait_for_returns_latest_payload_witness:
  "fst (wait_for sample_runtime ''zigbee2mqtt/lamp''
          [[lamp_empty], [lamp_on, lamp_off], [lamp_on]] [] None idle) =
     JObj [(''state'', JStr ''OFF'')] \<and>
   fst (wait_for sample_runtime ''zigbee2mqtt/plug'' [[lamp_on], [lamp_off]] [lamp_on] None idle) = JObj []"
proof -
  have quiet: "\<forall>m \<in> set (concat [[lamp_on], [lamp_off]]). topic m \<noteq> ''zigbee2mqtt/plug''"
    by (simp add: sample_lamp)
  from wait_for_returns_latest_payload [OF idle_behaved, of sample_runtime "''zigbee2mqtt/lamp''"
            "[[lamp_empty], [lamp_on, lamp_off], [lamp_on]]" "[]" None]
       wait_for_returns_latest_payload [OF idle_behaved, of sample_runtime "''zigbee2mqtt/plug''"
            "[[lamp_on], [lamp_off]]" "[lamp_on]" None] quiet
  show ?thesis
    by (simp add: sample_lamp latest_payload_def)
qed

text \<open>ON and OFF arrive, in this order, before the first poll: the call returns OFF.\<close>

theorem wait_for_not_first_payload:
  "try_json sample_runtime (payload lamp_on) = JObj [(''state'', JStr ''ON'')] \<and>
   fst (wait_for sample_runtime ''zigbee2mqtt/lamp'' [[lamp_on, lamp_off]] [] None idle) =
     JObj [(''state'', JStr ''OFF'')] \<and>
   fst (wait_for sample_runtime ''zigbee2mqtt/lamp'' [[lamp_on, lamp_off]] [] None idle) \<noteq>
     try_json sample_runtime (payload lamp_on)"
  using wait_for_behaved [OF idle_behaved, of sample_runtime "''zigbee2mqtt/lamp''" "[[lamp_on, lamp_off]]" "[]" None]
  by (simp add: sample_lamp latest_payload_def)

text \<open>
  The slot at the end of \<^verbatim>\<open>wait_for\<close>. It is gone after a successful poll, and after the pop
  of the timeout path when that pop falls into no dispatch. And what the slot of the topic
  held when the call began, if there was one, makes no difference to the call: nothing of an
  earlier call is observed.
\<close>

lemma wait_for_pops_slot:
  assumes "fst (wait_for_loop rt t rounds
                  (s\<lparr>one_shot := (one_shot s)(t \<mapsto> JObj []),
                     trace := trace s @ [Client_subscribe t]\<rparr>)) \<noteq> None \<or> racing = None"
  shows "one_shot (snd (wait_for rt t rounds late racing s)) t = None"
proof -
  let ?s0 = "s\<lparr>one_shot := (one_shot s)(t \<mapsto> JObj []), trace := trace s @ [Client_subscribe t]\<rparr>"
  obtain r s1 where eq: "wait_for_loop rt t rounds ?s0 = (r, s1)"
    by (cases "wait_for_loop rt t rounds ?s0")
  show ?thesis
  proof (cases r)
    case None
    with eq assms have "racing = None" by simp
    with eq None show ?thesis
      by (simp add: wait_for_def Let_def)
  next
    case (Some pl)
    with eq have "fst (wait_for_loop rt t rounds ?s0) = Some pl" by simp
    from wait_for_loop_pops [OF this] eq Some show ?thesis
      by (simp add: wait_for_def)
  qed
qed

lemma wait_for_ignores_old_slot:
  "wait_for rt t rounds late racing (s\<lparr>one_shot := (one_shot s)(t := stale)\<rparr>) =
     wait_for rt t rounds late racing s"
  by (simp add: wait_for_def)

text \<open>
  C6 does not hold of the code on the timeout path. A message on the lamp's topic is being
  dispatched when the wait for that topic runs out after one empty poll: the dispatch has
  found the slot, the caller pops it without the lock, and the dispatch then assigns it.
  \<^verbatim>\<open>wait_for\<close> returns \<^verbatim>\<open>{}\<close>, and the topic has a slot, holding the lamp's state, after the
  call.
\<close>

theorem wait_for_timeout_pop_races_with_dispatch:
  "fst (wait_for sample_runtime ''zigbee2mqtt/lamp'' [[]] [] (Some lamp_on) idle) = JObj [] \<and>
   one_shot (snd (wait_for sample_runtime ''zigbee2mqtt/lamp'' [[]] [] (Some lamp_on) idle))
     ''zigbee2mqtt/lamp'' = Some (JObj [(''state'', JStr ''ON'')])"
proof -
  let ?s0 = "idle\<lparr>one_shot := (one_shot idle)(''zigbee2mqtt/lamp'' \<mapsto> JObj []),
                   trace := trace idle @ [Client_subscribe ''zigbee2mqtt/lamp'']\<rparr>"
  have loop: "wait_for_loop sample_runtime ''zigbee2mqtt/lamp'' [[]] ?s0 = (None, ?s0)"
    by (simp add: dispatch_all_Nil)
  have "handlers_raise_only_Exception ?s0"
    using behaved_frame [of ?s0 idle] idle_behaved by simp
  then have "\<forall>h \<in> set (matching_handlers ?s0 (topic lamp_on)).
      raises_only_Exception h (topic lamp_on) (try_json sample_runtime (payload lamp_on))"
    by (simp add: handlers_raise_only_Exception_def)
  from before_fill_completes [OF this]
  have "one_shot (dispatch_racing sample_runtime ''zigbee2mqtt/lamp'' ?s0 lamp_on)
          ''zigbee2mqtt/lamp'' = Some (JObj [(''state'', JStr ''ON'')])"
    by (simp add: dispatch_racing_def racing_fill_def one_shot_rpc_correlation sample_lamp)
  with loop show ?thesis
    by (simp add: wait_for_def dispatch_all_Nil del: wait_for_loop.simps)
qed

text \<open>
  C10. When every message dispatched on a device's topic during the polls parses to the
  empty object, the loop of \<^verbatim>\<open>wait_for\<close> ends without a successful poll, \<^verbatim>\<open>wait_for\<close>
  returns \<^verbatim>\<open>{}\<close> on the timeout path, and \<^verbatim>\<open>get_device_state\<close> raises
  \<^verbatim>\<open>DeviceTimeoutError\<close>. And no successful poll ever returns the empty object.
\<close>

theorem empty_payload_never_satisfies_wait:
  assumes "\<forall>m \<in> set (concat rounds).
             topic m = Z2M_BASE rt @ ''/'' @ n \<longrightarrow> try_json rt (payload m) = JObj []"
  shows "fst (wait_for_loop rt (Z2M_BASE rt @ ''/'' @ n) rounds
                (s\<lparr>one_shot := (one_shot s)(Z2M_BASE rt @ ''/'' @ n \<mapsto> JObj []),
                   trace := trace s @ [Client_subscribe (Z2M_BASE rt @ ''/'' @ n)]\<rparr>)) = None \<and>
         fst (wait_for rt (Z2M_BASE rt @ ''/'' @ n) rounds late racing s) = JObj [] \<and>
         fst (get_device_state rt n rounds late racing s) = Inl DeviceTimeoutError \<and>
         fst (wait_for_loop rt t' rounds' s') \<noteq> Some (JObj [])"
proof -
  let ?t = "Z2M_BASE rt @ ''/'' @ n"
  let ?s0 = "s\<lparr>one_shot := (one_shot s)(?t \<mapsto> JObj []), trace := trace s @ [Client_subscribe ?t]\<rparr>"
  have "one_shot ?s0 ?t = Some (JObj [])" by simp
  from wait_for_loop_empty [OF this assms]
  have loop: "fst (wait_for_loop rt ?t rounds ?s0) = None" .
  then have w: "fst (wait_for rt ?t rounds late racing s) = JObj []"
    by (simp add: wait_for_fst)
  obtain st s1 where eq: "wait_for rt ?t rounds late racing s = (st, s1)"
    by (cases "wait_for rt ?t rounds late racing s")
  with w have "st = JObj []" by simp
  with eq have g: "fst (get_device_state rt n rounds late racing s) = Inl DeviceTimeoutError"
    by (simp add: get_device_state_def)
  have "fst (wait_for_loop rt t' rounds' s') \<noteq> Some (JObj [])"
    using wait_for_loop_true [of rt t' rounds' s' "JObj []"] by auto
  with loop w g show ?thesis by simp
qed

text \<open>On the sample installation: an empty message, then \<^verbatim>\<open>{}\<close> and another empty message.\<close>

theorem empty_payload_never_satisfies_wait_witness:
  "fst (wait_for sample_runtime ''zigbee2mqtt/lamp'' [[lamp_empty], [lamp_braces, lamp_empty]] [] None idle) = JObj [] \<and>
   fst (get_device_state sample_runtime ''lamp'' [[lamp_empty], [lamp_braces, lamp_empty]] [] None idle) =
     Inl DeviceTimeoutError"
proof -
  have "\<forall>m \<in> set (concat [[lamp_empty], [lamp_braces, lamp_empty]]).
          topic m = Z2M_BASE sample_runtime @ ''/'' @ ''lamp'' \<longrightarrow>
          try_json sample_runtime (payload m) = JObj []"
    by (simp add: sample_lamp)
  from empty_payload_never_satisfies_wait [OF this, where s = idle and late = "[]" and racing = None and t' = "[]" and rounds' = "[]" and s' = idle]
  show ?thesis
    by (simp add: sample_base del: wait_for_loop.simps)
qed

section \<open>Properties of the command-confirmation workflow\<close>

lemma device_command_empty:
  "device_command st b c tr = [] \<longleftrightarrow> st = None \<and> b = None \<and> c = None \<and> tr = None"
  by (auto simp: device_command_def control_field_def split: option.splits)


text \<open>
  The confirmation of a call. With handlers that raise nothing but \<^verbatim>\<open>Exception\<close>s, and one
  message dispatched during the wait, the call's answer is read off its own cell after all
  matching handlers have run. So the echo on the device's topic confirms the call, and a
  message on the topic of an earlier call, whose handler is still registered, does not.
\<close>

lemma set_device_state_behaved:
  assumes "handlers_raise_only_Exception s"
  shows "handlers_raise_only_Exception
           (publish_json set_topic cmd q r (subscribe_topic state_topic (state_handler c) (s\<lparr>heap := w\<rparr>)))"
  using assms
  by (auto simp: handlers_raise_only_Exception_def matching_handlers_def publish_json_def
        subscribe_topic_def state_handler_caught split: option.splits if_splits)

lemma heap_dispatch_behaved:
  assumes "handlers_raise_only_Exception s"
  shows "heap (dispatch rt s m) =
           run_all (topic m) (try_json rt (payload m)) (matching_handlers s (topic m)) (heap s)"
  by (simp add: dispatch_behaved [OF assms] heap_one_shot_fill heap_rpc_correlation)

lemma set_device_state_one_message:
  assumes "handlers_raise_only_Exception s" and "device_command st b ct tr \<noteq> []"
  shows "fst (set_device_state rt n st b ct tr [m] s) =
     (let c = allocated (heap s);
          s2 = publish_json (Z2M_BASE rt @ ''/'' @ n @ ''/set'') (Some (device_command st b ct tr)) 0 False
                 (subscribe_topic (Z2M_BASE rt @ ''/'' @ n) (state_handler c)
                    (s\<lparr>heap := (heap s)
                        \<lparr>cells := (cells (heap s))
                           (c := \<lparr>confirmed_state = JObj [], received_event = False\<rparr>),
                         allocated := Suc c\<rparr>\<rparr>));
          w = run_all (topic m) (try_json rt (payload m)) (matching_handlers s2 (topic m)) (heap s2)
      in if received_event (cells w c) then Inr (confirmed_state (cells w c))
         else Inl DeviceTimeoutError)"
proof -
  let ?c = "allocated (heap s)"
  let ?w0 = "(heap s)\<lparr>cells := (cells (heap s))
                (?c := \<lparr>confirmed_state = JObj [], received_event = False\<rparr>),
              allocated := Suc ?c\<rparr>"
  let ?s2 = "publish_json (Z2M_BASE rt @ ''/'' @ n @ ''/set'') (Some (device_command st b ct tr)) 0 False
                 (subscribe_topic (Z2M_BASE rt @ ''/'' @ n) (state_handler ?c) (s\<lparr>heap := ?w0\<rparr>))"
  have "handlers_raise_only_Exception ?s2"
    by (rule set_device_state_behaved [OF assms(1)])
  from heap_dispatch_behaved [OF this, of rt m] assms(2) show ?thesis
    by (simp add: set_device_state_def Let_def dispatch_all_Cons dispatch_all_Nil)
qed

lemma echo_confirms_the_call:
  "fst (set_device_state sample_runtime ''lamp'' (Some ''ON'') None None None [lamp_on] idle) =
     Inr (JObj [(''state'', JStr ''ON'')])"
proof -
  have ne: "device_command (Some ''ON'') None None None \<noteq> []"
    by (simp add: device_command_empty)
  show ?thesis
    by (simp add: set_device_state_one_message [OF idle_behaved ne] Let_def sample_lamp
          sample_base matching_handlers_def subscribe_topic_def publish_json_def idle_handlers
          idle_heap run_all_def heap_after_def state_handler_def)
qed

lemma other_topic_does_not_confirm:
  "fst (set_device_state sample_runtime ''plug'' (Some ''ON'') None None None [lamp_on]
          (snd (set_device_state sample_runtime ''lamp'' (Some ''ON'') None None None [] idle))) =
     Inl DeviceTimeoutError"
proof -
  have ne: "device_command (Some ''ON'') None None None \<noteq> []"
    by (simp add: device_command_empty)
  let ?s1 = "publish_json ''zigbee2mqtt/lamp/set'' (Some (device_command (Some ''ON'') None None None)) 0 False
       (subscribe_topic ''zigbee2mqtt/lamp'' (state_handler 0)
          (idle\<lparr>heap := (heap idle)
              \<lparr>cells := (cells (heap idle))
                 (0 := \<lparr>confirmed_state = JObj [], received_event = False\<rparr>),
               allocated := Suc 0\<rparr>\<rparr>))"
  have first: "snd (set_device_state sample_runtime ''lamp'' (Some ''ON'') None None None [] idle) = ?s1"
    using ne by (simp add: set_device_state_def Let_def dispatch_all_Nil sample_base idle_heap)
  have b: "handlers_raise_only_Exception ?s1"
    by (rule set_device_state_behaved [OF idle_behaved])
  have "fst (set_device_state sample_runtime ''plug'' (Some ''ON'') None None None [lamp_on] ?s1) =
          Inl DeviceTimeoutError"
    by (subst set_device_state_one_message [OF b ne])
      (simp add: Let_def sample_lamp sample_base matching_handlers_def subscribe_topic_def
         publish_json_def idle_handlers idle_heap run_all_def heap_after_def state_handler_def)
  with first show ?thesis by simp
qed

text \<open>
  C1. A call of \<^verbatim>\<open>set_device_state\<close> with at least one control field adds exactly three
  effects, in this order: the exact handler for the state topic is put in the table, the
  client subscribes to the state topic, and the command is published to the state topic
  followed by \<^verbatim>\<open>/set\<close>. So the publish comes strictly after the registration, and the
  handler registered is the \<^verbatim>\<open>state_handler\<close> of this call, over a cell that no earlier call
  has. The dispatches during the wait add no effect.
\<close>

theorem set_device_state_registers_before_publish:
  assumes "st \<noteq> None \<or> b \<noteq> None \<or> c \<noteq> None \<or> tr \<noteq> None"
  shows "trace (snd (set_device_state rt n st b c tr inbound s)) =
           trace s @ [Register_topic (Z2M_BASE rt @ ''/'' @ n),
                      Client_subscribe (Z2M_BASE rt @ ''/'' @ n),
                      Client_publish (Z2M_BASE rt @ ''/'' @ n @ ''/set'')
                        (JObj (device_command st b c tr)) 0 False] \<and>
         registered_before_publish (Z2M_BASE rt @ ''/'' @ n) (Z2M_BASE rt @ ''/'' @ n @ ''/set'')
           (drop (length (trace s)) (trace (snd (set_device_state rt n st b c tr inbound s)))) \<and>
         topic_handlers (snd (set_device_state rt n st b c tr inbound s)) (Z2M_BASE rt @ ''/'' @ n) =
           Some (state_handler (allocated (heap s)))"
proof -
  from assms have ne: "device_command st b c tr \<noteq> []" by (simp add: device_command_empty)
  have tr: "trace (snd (set_device_state rt n st b c tr inbound s)) =
           trace s @ [Register_topic (Z2M_BASE rt @ ''/'' @ n),
                      Client_subscribe (Z2M_BASE rt @ ''/'' @ n),
                      Client_publish (Z2M_BASE rt @ ''/'' @ n @ ''/set'')
                        (JObj (device_command st b c tr)) 0 False]"
    using ne by (simp add: set_device_state_def Let_def dispatch_all_frame subscribe_topic_def publish_json_def)
  have h: "topic_handlers (snd (set_device_state rt n st b c tr inbound s)) (Z2M_BASE rt @ ''/'' @ n) =
           Some (state_handler (allocated (heap s)))"
    using ne by (simp add: set_device_state_def Let_def dispatch_all_frame subscribe_topic_def publish_json_def)
  have "registered_before_publish (Z2M_BASE rt @ ''/'' @ n) (Z2M_BASE rt @ ''/'' @ n @ ''/set'')
          [Register_topic (Z2M_BASE rt @ ''/'' @ n),
                      Client_subscribe (Z2M_BASE rt @ ''/'' @ n),
                      Client_publish (Z2M_BASE rt @ ''/'' @ n @ ''/set'')
                        (JObj (device_command st b c tr)) 0 False]"
    unfolding registered_before_publish_def
  proof (intro allI impI)
    fix i
    assume i: "i < length [Register_topic (Z2M_BASE rt @ ''/'' @ n),
                      Client_subscribe (Z2M_BASE rt @ ''/'' @ n),
                      Client_publish (Z2M_BASE rt @ ''/'' @ n @ ''/set'')
                        (JObj (device_command st b c tr)) 0 False]"
      and p: "\<exists>body q r. [Register_topic (Z2M_BASE rt @ ''/'' @ n),
                      Client_subscribe (Z2M_BASE rt @ ''/'' @ n),
                      Client_publish (Z2M_BASE rt @ ''/'' @ n @ ''/set'')
                        (JObj (device_command st b c tr)) 0 False] ! i = Client_publish (Z2M_BASE rt @ ''/'' @ n @ ''/set'') body q r"
    from i have "i = 0 \<or> i = 1 \<or> i = 2" by auto
    with p have "i = 2" by auto
    then show "\<exists>j<i. [Register_topic (Z2M_BASE rt @ ''/'' @ n),
                      Client_subscribe (Z2M_BASE rt @ ''/'' @ n),
                      Client_publish (Z2M_BASE rt @ ''/'' @ n @ ''/set'')
                        (JObj (device_command st b c tr)) 0 False] ! j = Register_topic (Z2M_BASE rt @ ''/'' @ n)"
      by (intro exI [of _ 0]) simp
  qed
  with tr h show ?thesis by simp
qed

theorem set_device_state_registers_before_publish_witness:
  "trace (snd (set_device_state sample_runtime ''lamp'' (Some ''ON'') None None None [] idle)) =
     [Register_topic ''zigbee2mqtt/lamp'', Client_subscribe ''zigbee2mqtt/lamp'',
      Client_publish ''zigbee2mqtt/lamp/set'' (JObj [(''state'', JStr ''ON'')]) 0 False] \<and>
   registered_before_publish ''zigbee2mqtt/lamp'' ''zigbee2mqtt/lamp/set''
     (trace (snd (set_device_state sample_runtime ''lamp'' (Some ''ON'') None None None [] idle)))"
proof -
  have "(Some ''ON'' :: string option) \<noteq> None \<or> (None :: int option) \<noteq> None \<or>
        (None :: int option) \<noteq> None \<or> (None :: pyfloat option) \<noteq> None"
    by simp
  from set_device_state_registers_before_publish [OF this, of sample_runtime "''lamp''" "[]" idle]
  show ?thesis
    by (auto simp add: sample_base idle_trace device_command_def control_field_def)
qed

text \<open>
  C2. With every control field absent, \<^verbatim>\<open>set_device_state\<close> raises \<^verbatim>\<open>ValueError\<close> and leaves
  the system as it was: no effect is added (nothing published, nothing subscribed), no
  handler registered, and no message of the schedule dispatched before the raise. The same
  holds for \<^verbatim>\<open>set_group_state\<close> and its three fields.
\<close>

theorem validation_failure_is_silent:
  "set_device_state rt n None None None None inbound s = (Inl ValueError, s) \<and>
   set_group_state rt g None None None s' = (Inl ValueError, s')"
  by (simp add: set_device_state_def set_group_state_def device_command_def group_command_def
        control_field_def)



end
